theory Spec2Isabelle
  imports Complex_Main "HOL-Library.Sublist"
begin

section \<open>JavaScript values, exceptions and the external services\<close>

text \<open>
  A thrown JavaScript value is either an \<^verbatim>\<open>Error\<close> instance (with its message) or any
  other value (with its \<^verbatim>\<open>String(...)\<close> rendering). The handlers of the repository read a
  thrown value only through \<^verbatim>\<open>error instanceof Error ? error.message : String(error)\<close>.
\<close>

datatype exn = JsError string | JsThrown string

fun errorMessage :: "exn \<Rightarrow> string" where
  "errorMessage (JsError m) = m"
| "errorMessage (JsThrown s) = s"

text \<open>
  The values \<^verbatim>\<open>JSON.parse\<close> can return. Numbers are IEEE doubles in JavaScript; they are
  carried as reals here and never computed with.
\<close>

datatype json =
    JNull
  | JBool bool
  | JNumber real
  | JString string
  | JArray "json list"
  | JObject "(string \<times> json) list"

text \<open>
  \<^verbatim>\<open>value || fallback\<close> on an optional string: the fallback is taken when the value is
  missing (\<^verbatim>\<open>undefined\<close>, \<^verbatim>\<open>null\<close>) and also when it is the empty string.
\<close>

definition or_default :: "string option \<Rightarrow> string \<Rightarrow> string" where
  "or_default v d = (case v of None \<Rightarrow> d | Some s \<Rightarrow> if s = [] then d else s)"

text \<open>\<^verbatim>\<open>Array.prototype.join\<close> on strings.\<close>

fun join :: "string \<Rightarrow> string list \<Rightarrow> string" where
  "join sep [] = []"
| "join sep [x] = x"
| "join sep (x # y # ys) = x @ sep @ join sep (y # ys)"

text \<open>
  One request to \<^verbatim>\<open>openai.chat.completions.create\<close>. The service is a parameter of the
  model: it either rejects (the awaited call throws) or resolves, and the code reads only
  \<^verbatim>\<open>response.choices[0]?.message?.content\<close> of the response, which may be missing.
\<close>

record chat_request =
  model :: string
  messages :: "(string \<times> string) list"
  max_completion_tokens :: "nat option"
  response_format :: "string option"

type_synonym chat_service = "chat_request \<Rightarrow> exn + string option"

text \<open>The four stored procedures called through \<^verbatim>\<open>supabase.rpc\<close>, with their arguments.\<close>

datatype rpc_call =
    keyword_search_with_context string string nat
  | search_knowledge_entities json string
  | search_knowledge_relationships string string string
  | get_related_entities string string string

text \<open>
  One nearest-neighbour query to the Weaviate client: \<^verbatim>\<open>withTenant\<close>,
  \<^verbatim>\<open>withNearText({concepts: [q]})\<close>, the optional \<^verbatim>\<open>withWhere\<close> equality filter on
  \<^verbatim>\<open>document_id\<close>, and \<^verbatim>\<open>withLimit\<close>. The class name and the field selection are the
  same in every query of the repository.
\<close>

record weaviate_query =
  tenant :: string
  concept :: json
  where_document_id :: "string option"
  limit :: nat

text \<open>The external calls a function issued, in the order it issued them.\<close>

datatype call =
    ChatCall chat_request
  | RpcCall rpc_call
  | WeaviateCall weaviate_query

section \<open>Executor results and the Refiner\<close>

record 'd ToolResult =
  tool :: string
  success :: bool
  data :: "'d option"
  error :: "string option"
  executionTime :: int

record RefinedResponse =
  content :: string
  confidence :: real

text \<open>
  The collaborators of a \<^verbatim>\<open>Refiner\<close>: its OpenAI client, the module constant
  \<^verbatim>\<open>OPENAI_MODEL_REFINER\<close> (read from the process environment) and
  \<^verbatim>\<open>JSON.stringify(data, null, 2)\<close> on the tool data, whose type the executor leaves open.
\<close>

record 'd Refiner =
  refiner_openai :: chat_service
  OPENAI_MODEL_REFINER :: string
  stringify :: "'d option \<Rightarrow> string"

text \<open>
  \<^verbatim>\<open>Refiner.calculateConfidence\<close>. JavaScript computes the success rate in double
  precision; the model computes it in the reals.
\<close>

definition calculateConfidence :: "'d ToolResult list \<Rightarrow> real" where
  "calculateConfidence results =
     (let successful = length (filter success results);
          total = length results
      in if total = 0 then 0
         else
           let successRate = (real successful / real total) * 100
           in if successful \<ge> 3 then min 95 successRate
              else if successful = 2 then min 85 successRate
              else if successful = 1 then min 70 successRate
              else successRate)"

definition not_found_message :: string where
  "not_found_message =
     ''I couldn't find the information needed to answer your query. Please try rephrasing.''"

definition tool_section :: "'d Refiner \<Rightarrow> 'd ToolResult \<Rightarrow> string" where
  "tool_section R r =
     ''\<newline>Tool: '' @ tool r @ ''\<newline>Data: '' @ stringify R (data r) @ ''\<newline>''"

definition refine_prompt :: "'d Refiner \<Rightarrow> string \<Rightarrow> 'd ToolResult list \<Rightarrow> string" where
  \<open>refine_prompt R query successful =
     ''Create a comprehensive answer based on tool results.\<newline>\<newline>ORIGINAL QUERY: "''
     @ query @ ''"\<newline>\<newline>TOOL RESULTS:\<newline>''
     @ join ''\<newline>---\<newline>'' (map (tool_section R) successful)
     @ ''\<newline>\<newline>Instructions:\<newline>1. Answer the query directly\<newline>''
     @ ''2. Combine all information coherently\<newline>3. Remove duplicates\<newline>''
     @ ''4. Be conversational and helpful\<newline>5. Do NOT mention the tools used\<newline>''
     @ ''\<newline>Provide the answer:''\<close>

definition refine_request :: "'d Refiner \<Rightarrow> string \<Rightarrow> 'd ToolResult list \<Rightarrow> chat_request" where
  "refine_request R query successful =
     \<lparr>model = OPENAI_MODEL_REFINER R,
      messages = [(''system'', refine_prompt R query successful)],
      max_completion_tokens = Some 2000,
      response_format = None\<rparr>"

text \<open>
  \<^verbatim>\<open>Refiner.refineResults\<close>. The completion call is awaited outside any
  \<^verbatim>\<open>try\<close>: when it rejects, the rejection is the outcome of \<^verbatim>\<open>refineResults\<close>.
  The first component lists the calls issued.
\<close>

definition refineResults ::
  "'d Refiner \<Rightarrow> string \<Rightarrow> 'd ToolResult list \<Rightarrow> call list \<times> (exn + RefinedResponse)" where
  "refineResults R query results =
     (let successful = filter success results
      in if length successful = 0
         then ([], Inr \<lparr>content = not_found_message, confidence = 0\<rparr>)
         else
           let req = refine_request R query successful
           in case refiner_openai R req of
                Inl e \<Rightarrow> ([ChatCall req], Inl e)
              | Inr c \<Rightarrow>
                  ([ChatCall req],
                   Inr \<lparr>content = or_default c ''Unable to generate response'',
                        confidence = calculateConfidence results\<rparr>))"

text \<open>
  The scorer as the specification words it, on the two counts: refinement target for
  \<open>calculateConfidence\<close>.
\<close>

definition spec_confidence :: "nat \<Rightarrow> nat \<Rightarrow> real" where
  "spec_confidence successes attempted =
     (if attempted = 0 then 0
      else if successes \<ge> 3 then min 95 (real successes / real attempted * 100)
      else if successes = 2 then min 85 (real successes / real attempted * 100)
      else if successes = 1 then min 70 (real successes / real attempted * 100)
      else real successes / real attempted * 100)"

text \<open>Sample outcomes used in the concrete instances below.\<close>

definition ok_result :: "unit ToolResult" where
  "ok_result =
     \<lparr>tool = ''database_query'', success = True, data = Some (), error = None,
      executionTime = 12\<rparr>"

definition failed_result :: "unit ToolResult" where
  "failed_result =
     \<lparr>tool = ''database_query'', success = False, data = None,
      error = Some ''clerk_user_id is required for database queries'', executionTime = 3\<rparr>"

definition answering_refiner :: "unit Refiner" where
  "answering_refiner =
     \<lparr>refiner_openai = (\<lambda>req. Inr (Some ''Ada Lovelace wrote the first program.'')),
      OPENAI_MODEL_REFINER = ''refiner-model'',
      stringify = (\<lambda>d. ''{}'')\<rparr>"

definition failing_refiner :: "unit Refiner" where
  "failing_refiner =
     \<lparr>refiner_openai = (\<lambda>req. Inl (JsError ''429 rate limit exceeded'')),
      OPENAI_MODEL_REFINER = ''refiner-model'',
      stringify = (\<lambda>d. ''{}'')\<rparr>"

section \<open>The Executor\<close>

text \<open>
  \<^verbatim>\<open>params\<close> is typed \<^verbatim>\<open>any\<close>: \<open>None\<close> stands for a missing object (reading
  \<^verbatim>\<open>params.query\<close> then throws a TypeError), \<open>Some q\<close> for an object whose
  \<^verbatim>\<open>query\<close> property is \<open>q\<close>.
\<close>

record Tool =
  name :: string
  params :: "string option option"
  priority :: int
  reason :: string

datatype strategy = parallel | sequential

record ToolPlan =
  tools :: "Tool list"
  strategy :: strategy

text \<open>The configuration object the executor hands to a tool, and a tool's response.\<close>

record ToolConfig =
  clerkUserId :: "string option"
  config_name :: string
  config_priority :: int
  config_reason :: string
  depth :: string
  focus :: "string list"

record 'd ToolResponse =
  resp_success :: bool
  resp_data :: "'d option"
  resp_error :: "string option"

text \<open>
  A registered tool is its \<^verbatim>\<open>execute\<close> method, which may throw. The registry
  (\<^verbatim>\<open>getToolRegistry().getTool\<close>) and the two readings of \<^verbatim>\<open>Date.now()\<close> are
  parameters.
\<close>

type_synonym 'd registered_tool = "string \<Rightarrow> ToolConfig \<Rightarrow> exn + 'd ToolResponse"

record 'd Executor =
  getTool :: "string \<Rightarrow> 'd registered_tool option"
  startTime :: int
  endTime :: int

definition tool_config :: "Tool \<Rightarrow> string option \<Rightarrow> ToolConfig" where
  "tool_config toolConfig uid =
     \<lparr>clerkUserId = uid,
      config_name = name toolConfig,
      config_priority = priority toolConfig,
      config_reason = reason toolConfig,
      depth = ''medium'',
      focus = []\<rparr>"

definition failed_tool_result :: "'d Executor \<Rightarrow> Tool \<Rightarrow> string \<Rightarrow> 'd ToolResult" where
  "failed_tool_result X toolConfig msg =
     \<lparr>tool = name toolConfig, success = False, data = None, error = Some msg,
      executionTime = endTime X - startTime X\<rparr>"

text \<open>
  \<^verbatim>\<open>Executor.executeTools\<close>. The first component lists the tool executions performed
  (tool name and query argument); the second is the returned list, or the exception when
  \<^verbatim>\<open>tools[0]\<close> is \<^verbatim>\<open>undefined\<close> and reading its name throws before the
  \<^verbatim>\<open>try\<close>. The texts of the two TypeErrors are the engine's.
\<close>

definition executeTools ::
  "'d Executor \<Rightarrow> ToolPlan \<Rightarrow> string option
     \<Rightarrow> (string \<times> string) list \<times> (exn + 'd ToolResult list)" where
  "executeTools X plan uid =
     (case tools plan of
        [] \<Rightarrow> ([], Inl (JsError ''Cannot read properties of undefined (reading 'name')''))
      | toolConfig # _ \<Rightarrow>
          (case getTool X (name toolConfig) of
             None \<Rightarrow>
               ([], Inr [failed_tool_result X toolConfig
                           (''Tool not found: '' @ name toolConfig)])
           | Some tool_impl \<Rightarrow>
               (case params toolConfig of
                  None \<Rightarrow>
                    ([], Inr [failed_tool_result X toolConfig
                                ''Cannot read properties of undefined (reading 'query')''])
                | Some q \<Rightarrow>
                    (let arg = or_default q []
                     in case tool_impl arg (tool_config toolConfig uid) of
                          Inl e \<Rightarrow>
                            ([(name toolConfig, arg)],
                             Inr [failed_tool_result X toolConfig (errorMessage e)])
                        | Inr result \<Rightarrow>
                            ([(name toolConfig, arg)],
                             Inr [\<lparr>tool = name toolConfig,
                                   success = resp_success result,
                                   data = resp_data result,
                                   error = resp_error result,
                                   executionTime = endTime X - startTime X\<rparr>])))))"

section \<open>The context\_finder handler\<close>

record UsageCheck =
  canProceed :: bool
  message :: "string option"
  availableToday :: int
  availableMonth :: int
  heroPoints :: int

text \<open>
  The collaborators of the handler. \<^verbatim>\<open>checkUsageLimit\<close> catches every error of its own
  and always resolves; usage tracking and decrementing run inside a \<^verbatim>\<open>try\<close> whose
  handler only logs, and do not influence the reply: they are left out.
\<close>

record 'd ContextFinder =
  checkUsageLimit :: "string \<Rightarrow> UsageCheck"
  executor :: "'d Executor"
  refiner :: "'d Refiner"

definition toolPlan :: "string \<Rightarrow> ToolPlan" where
  "toolPlan query =
     \<lparr>tools = [\<lparr>name = ''database_query'', params = Some (Some query), priority = 1,
                 reason = ''Search user private data and uploaded documents''\<rparr>],
      strategy = parallel\<rparr>"

text \<open>\<^verbatim>\<open>String.prototype.includes\<close>.\<close>

definition includes_str :: "string \<Rightarrow> string \<Rightarrow> bool" where
  "includes_str s pat = sublist pat s"

definition generic_message :: string where
  "generic_message = ''Something went wrong. Please try again later.''"

definition busy_message :: string where
  "busy_message = ''Our AI service is currently busy. Please try again in a few minutes.''"

definition connection_message :: string where
  "connection_message = ''Connection issue detected. Please try again later.''"

text \<open>The \<^verbatim>\<open>catch\<close> block of the handler: the sanitised text for a caught error.\<close>

definition userMessage :: "exn \<Rightarrow> string" where
  "userMessage err =
     (let errorString = errorMessage err
      in if includes_str errorString ''429'' \<or> includes_str errorString ''rate limit''
            \<or> includes_str errorString ''quota''
            \<or> includes_str errorString ''Request too large''
            \<or> includes_str errorString ''tokens per min''
         then busy_message
         else if includes_str errorString ''401'' \<or> includes_str errorString ''403''
                 \<or> includes_str errorString ''unauthorized''
         then generic_message
         else if includes_str errorString ''ECONNREFUSED''
                 \<or> includes_str errorString ''network''
                 \<or> includes_str errorString ''timeout''
         then connection_message
         else generic_message)"

text \<open>
  The handler registered by \<^verbatim>\<open>registerContextFinderTool\<close>, as the text of its reply.
  \<open>context\<close> is the optional context object, reduced to its \<^verbatim>\<open>clerkUserId\<close> entry.
\<close>

definition context_finder :: "'d ContextFinder \<Rightarrow> string \<Rightarrow> string option option \<Rightarrow> string" where
  "context_finder F query context =
     (let uid = or_default (case context of None \<Rightarrow> None | Some c \<Rightarrow> c) []
      in if uid = []
         then ''Error: User authentication required. Please ensure you are properly authenticated.''
         else
           let usageCheck = checkUsageLimit F uid
           in if \<not> canProceed usageCheck
              then or_default (message usageCheck)
                     ''Usage limit exceeded. Please try again later.''
              else
                (case snd (executeTools (executor F) (toolPlan query) (Some uid)) of
                   Inl e \<Rightarrow> userMessage e
                 | Inr toolResults \<Rightarrow>
                     (case snd (refineResults (refiner F) query toolResults) of
                        Inl e \<Rightarrow> userMessage e
                      | Inr refinedResponse \<Rightarrow> content refinedResponse)))"

section \<open>The database\_query tool\<close>

datatype source = keyword | knowledge_graph | vector

text \<open>The metadata objects the adapters attach, one constructor per shape.\<close>

datatype metadata =
    KeywordMeta string int int
  | EntityMeta string string string
  | RelationshipMeta string string string string
  | RelatedEntityMeta string string string string
  | VectorMeta json string "real option"
  | EntityVectorMeta string string "real option"

record SearchResult =
  source :: source
  result_content :: string
  metadata :: metadata
  score :: "real option"

record EntityWithDocument =
  entity :: string
  documentId :: string

text \<open>
  What \<^verbatim>\<open>supabase.rpc(...)\<close> resolves to: \<^verbatim>\<open>{ data, error }\<close>, with \<^verbatim>\<open>data\<close> the
  rows or \<^verbatim>\<open>null\<close> and \<^verbatim>\<open>error\<close> an error object or \<^verbatim>\<open>null\<close>. The rows of the four
  stored procedures carry the columns the code reads.
\<close>

record 'r rpc_reply =
  rpc_data :: "'r list option"
  rpc_error :: "string option"

record keyword_row =
  kw_data_id :: string
  context_text :: "string option"
  match_position :: int
  total_matches :: int

record entity_row =
  entity_name :: string
  entity_type :: string
  entity_description :: "string option"
  data_id :: string

record relationship_row =
  subject :: string
  predicate :: string
  object :: string
  rel_data_id :: string

record related_row =
  related_entity_name :: string
  related_entity_type :: string
  relationship_type :: string
  related_data_id :: string

text \<open>
  One hit of a Weaviate query (\<^verbatim>\<open>content document_id _additional { certainty distance }\<close>).
  A query resolves to the list under \<^verbatim>\<open>result.data?.Get?.[WEAVIATE_CLASS_NAME]\<close>, or to
  nothing there.
\<close>

record vector_doc =
  doc_content :: "string option"
  doc_document_id :: string
  certainty :: "real option"
  distance :: "real option"

text \<open>
  The collaborators of a \<^verbatim>\<open>DatabaseQueryTool\<close>: the OpenAI client, \<^verbatim>\<open>JSON.parse\<close>,
  the four stored procedures behind the Supabase client, the Weaviate client, and the two
  model names read from the process environment. Every service either throws or resolves.
\<close>

record DatabaseQueryTool =
  openai :: chat_service
  json_parse :: "string \<Rightarrow> exn + json"
  keyword_rpc :: "string \<Rightarrow> string \<Rightarrow> nat \<Rightarrow> exn + keyword_row rpc_reply"
  entities_rpc :: "json \<Rightarrow> string \<Rightarrow> exn + entity_row rpc_reply"
  relationships_rpc :: "string \<Rightarrow> string \<Rightarrow> string \<Rightarrow> exn + relationship_row rpc_reply"
  related_rpc :: "string \<Rightarrow> string \<Rightarrow> string \<Rightarrow> exn + related_row rpc_reply"
  weaviateClient :: "weaviate_query \<Rightarrow> exn + vector_doc list option"
  OPENAI_MODEL_REPHRASE :: string
  EXTRACT_ENTITIES_MODEL :: string

subsection \<open>Query rephrasing\<close>

definition rephrase_prompt :: "string \<Rightarrow> string" where
  \<open>rephrase_prompt query =
     ''Rephrase this query in 2 different ways to capture different aspects and synonyms.''
     @ ''\<newline>Original query: "'' @ query @ ''"\<newline>\<newline>''
     @ ''Return ONLY a JSON array with 2 rephrased versions:\<newline>''
     @ ''["rephrased version 1", "rephrased version 2"]''\<close>

definition rephrase_request :: "DatabaseQueryTool \<Rightarrow> string \<Rightarrow> chat_request" where
  "rephrase_request T query =
     \<lparr>model = OPENAI_MODEL_REPHRASE T,
      messages = [(''user'', rephrase_prompt query)],
      max_completion_tokens = Some 400,
      response_format = None\<rparr>"

text \<open>
  \<^verbatim>\<open>rephraseQuery\<close> returns whatever \<^verbatim>\<open>JSON.parse\<close> returns: the declared type
  \<^verbatim>\<open>string[]\<close> is not checked at run time. Both the call and the parse stand inside
  the \<^verbatim>\<open>try\<close>, whose handler returns the empty array.
\<close>

definition rephraseQuery :: "DatabaseQueryTool \<Rightarrow> string \<Rightarrow> call list \<times> json" where
  "rephraseQuery T query =
     (let req = rephrase_request T query
      in case openai T req of
           Inl e \<Rightarrow> ([ChatCall req], JArray [])
         | Inr c \<Rightarrow>
             (case json_parse T (or_default c ''[]'') of
                Inl e \<Rightarrow> ([ChatCall req], JArray [])
              | Inr v \<Rightarrow> ([ChatCall req], v)))"

text \<open>
  The spread \<^verbatim>\<open>...rephrased\<close> inside an array literal: an array gives its elements, a
  string its characters, and any other JSON value is not iterable (a TypeError, whose
  text is the engine's).
\<close>

fun spread :: "json \<Rightarrow> exn + json list" where
  "spread (JArray xs) = Inr xs"
| "spread (JString s) = Inr (map (\<lambda>c. JString [c]) s)"
| "spread v = Inl (JsError ''rephrased is not iterable'')"

subsection \<open>Keyword search\<close>

definition keyword_result :: "keyword_row \<Rightarrow> SearchResult" where
  "keyword_result item =
     \<lparr>source = keyword,
      result_content = or_default (context_text item) [],
      metadata = KeywordMeta (kw_data_id item) (match_position item) (total_matches item),
      score = None\<rparr>"

definition keywordSearch ::
  "DatabaseQueryTool \<Rightarrow> string \<Rightarrow> string \<Rightarrow> call list \<times> SearchResult list" where
  "keywordSearch T query uid =
     (let issued = [RpcCall (keyword_search_with_context query uid 50)]
      in case keyword_rpc T query uid 50 of
           Inl e \<Rightarrow> (issued, [])
         | Inr reply \<Rightarrow>
             if rpc_error reply \<noteq> None then (issued, [])
             else (issued,
                   map keyword_result (case rpc_data reply of None \<Rightarrow> [] | Some rows \<Rightarrow> rows)))"

subsection \<open>Knowledge graph search\<close>

definition extract_system_prompt :: string where
  \<open>extract_system_prompt =
     ''Extract all entities (people, places, concepts, organizations, etc.) from the user ''
     @ ''query. Return only a JSON object with an "entities" array containing entity names ''
     @ ''as strings. Example: {"entities": ["artificial intelligence", "machine learning", ''
     @ ''"neural networks"]}''\<close>

definition extract_request :: "DatabaseQueryTool \<Rightarrow> string \<Rightarrow> chat_request" where
  "extract_request T query =
     \<lparr>model = EXTRACT_ENTITIES_MODEL T,
      messages = [(''system'', extract_system_prompt), (''user'', query)],
      max_completion_tokens = None,
      response_format = Some ''json_object''\<rparr>"

text \<open>JavaScript truthiness of a JSON value.\<close>

fun truthy :: "json \<Rightarrow> bool" where
  "truthy JNull = False"
| "truthy (JBool b) = b"
| "truthy (JNumber x) = (x \<noteq> 0)"
| "truthy (JString s) = (s \<noteq> [])"
| "truthy (JArray xs) = True"
| "truthy (JObject kvs) = True"

text \<open>
  \<^verbatim>\<open>parsed.entities || []\<close>: reading a property of \<^verbatim>\<open>null\<close> throws; an object gives
  the property (its keys are distinct after parsing); every other JSON value has no such
  property.
\<close>

fun entities_of :: "json \<Rightarrow> exn + json" where
  "entities_of JNull = Inl (JsError ''Cannot read properties of null (reading 'entities')'')"
| "entities_of (JObject kvs) =
     (case map_of kvs ''entities'' of
        None \<Rightarrow> Inr (JArray [])
      | Some v \<Rightarrow> Inr (if truthy v then v else JArray []))"
| "entities_of v = Inr (JArray [])"

text \<open>
  \<^verbatim>\<open>extractEntitiesFromQuery\<close>: like the rephrasing, it returns the parsed value unchecked
  and the empty array on any exception.
\<close>

definition extractEntitiesFromQuery :: "DatabaseQueryTool \<Rightarrow> string \<Rightarrow> call list \<times> json" where
  \<open>extractEntitiesFromQuery T query =
     (let req = extract_request T query
      in case openai T req of
           Inl e \<Rightarrow> ([ChatCall req], JArray [])
         | Inr c \<Rightarrow>
             (case json_parse T (or_default c ''{"entities": []}'') of
                Inl e \<Rightarrow> ([ChatCall req], JArray [])
              | Inr parsed \<Rightarrow>
                  (case entities_of parsed of
                     Inl e \<Rightarrow> ([ChatCall req], JArray [])
                   | Inr v \<Rightarrow> ([ChatCall req], v))))\<close>

record kg_output =
  results :: "SearchResult list"
  entities :: "string list"
  entitiesWithDocuments :: "EntityWithDocument list"

definition empty_kg_output :: kg_output where
  "empty_kg_output = \<lparr>results = [], entities = [], entitiesWithDocuments = []\<rparr>"

definition entity_result :: "entity_row \<Rightarrow> SearchResult" where
  "entity_result e =
     \<lparr>source = knowledge_graph,
      result_content =
        ''Entity: '' @ entity_name e @ '' ('' @ entity_type e @ ''): ''
        @ or_default (entity_description e) ''No description'',
      metadata = EntityMeta (entity_name e) (entity_type e) (data_id e),
      score = None\<rparr>"

text \<open>The arrow U+2192 between the parts of a relationship, as its UTF-8 bytes.\<close>

definition arrow :: string where
  "arrow = [CHR 0xE2, CHR 0x86, CHR 0x92]"

definition relationship_result :: "relationship_row \<Rightarrow> SearchResult" where
  "relationship_result r =
     \<lparr>source = knowledge_graph,
      result_content =
        ''Relationship: '' @ subject r @ '' '' @ arrow @ '' '' @ predicate r
        @ '' '' @ arrow @ '' '' @ object r,
      metadata = RelationshipMeta (subject r) (object r) (predicate r) (rel_data_id r),
      score = None\<rparr>"

definition related_result :: "related_row \<Rightarrow> SearchResult" where
  "related_result r =
     \<lparr>source = knowledge_graph,
      result_content =
        ''Related Entity: '' @ related_entity_name r @ '' ('' @ related_entity_type r @ '')'',
      metadata =
        RelatedEntityMeta (related_entity_name r) (related_entity_type r)
          (relationship_type r) (related_data_id r),
      score = None\<rparr>"

text \<open>
  \<^verbatim>\<open>if (!error && data) for (... of data) results.push(...)\<close>, for either of the two
  follow-up procedures.
\<close>

definition push_rows :: "('r \<Rightarrow> SearchResult) \<Rightarrow> 'r rpc_reply \<Rightarrow> kg_output \<Rightarrow> kg_output" where
  "push_rows f reply out =
     (if rpc_error reply = None
      then (case rpc_data reply of
              None \<Rightarrow> out
            | Some rows \<Rightarrow> out\<lparr>results := results out @ map f rows\<rparr>)
      else out)"

text \<open>
  The body of the inner loop for one matched entity row. The three accumulators are
  mutated before the follow-up calls, so what was pushed stays when a call throws; the
  thrown value leaves the inner loop (first component).
\<close>

definition processEntity ::
  "DatabaseQueryTool \<Rightarrow> string \<Rightarrow> entity_row \<Rightarrow> call list \<times> kg_output
     \<Rightarrow> exn option \<times> (call list \<times> kg_output)" where
  "processEntity T uid e st =
     (let nm = entity_name e;
          doc = data_id e;
          out1 = (snd st)\<lparr>results := results (snd st) @ [entity_result e],
                          entities := entities (snd st) @ [nm],
                          entitiesWithDocuments :=
                            entitiesWithDocuments (snd st) @ [\<lparr>entity = nm, documentId = doc\<rparr>]\<rparr>;
          log1 = fst st @ [RpcCall (search_knowledge_relationships nm uid doc)]
      in case relationships_rpc T nm uid doc of
           Inl ex \<Rightarrow> (Some ex, (log1, out1))
         | Inr rel \<Rightarrow>
             (let out2 = push_rows relationship_result rel out1;
                  log2 = log1 @ [RpcCall (get_related_entities nm uid doc)]
              in case related_rpc T nm uid doc of
                   Inl ex \<Rightarrow> (Some ex, (log2, out2))
                 | Inr rl \<Rightarrow> (None, (log2, push_rows related_result rl out2))))"

fun processEntities ::
  "DatabaseQueryTool \<Rightarrow> string \<Rightarrow> entity_row list \<Rightarrow> call list \<times> kg_output
     \<Rightarrow> exn option \<times> (call list \<times> kg_output)" where
  "processEntities T uid [] st = (None, st)"
| "processEntities T uid (e # es) st =
     (case processEntity T uid e st of
        (Some ex, st') \<Rightarrow> (Some ex, st')
      | (None, st') \<Rightarrow> processEntities T uid es st')"

text \<open>
  The body of the outer loop for one extracted entity: the lookup, then the inner loop.
  The \<^verbatim>\<open>catch\<close> of the body logs the exception and the loop goes on.
\<close>

definition searchEntity ::
  "DatabaseQueryTool \<Rightarrow> string \<Rightarrow> json \<Rightarrow> call list \<times> kg_output \<Rightarrow> call list \<times> kg_output" where
  "searchEntity T uid entityName st =
     (let st1 = (fst st @ [RpcCall (search_knowledge_entities entityName uid)], snd st)
      in case entities_rpc T entityName uid of
           Inl ex \<Rightarrow> st1
         | Inr reply \<Rightarrow>
             if rpc_error reply \<noteq> None then st1
             else snd (processEntities T uid
                         (case rpc_data reply of None \<Rightarrow> [] | Some rows \<Rightarrow> rows) st1))"

fun searchEntities ::
  "DatabaseQueryTool \<Rightarrow> string \<Rightarrow> json list \<Rightarrow> call list \<times> kg_output \<Rightarrow> call list \<times> kg_output" where
  "searchEntities T uid [] st = st"
| "searchEntities T uid (entityName # rest) st =
     searchEntities T uid rest (searchEntity T uid entityName st)"

text \<open>
  \<^verbatim>\<open>knowledgeGraphSearch\<close>. \<^verbatim>\<open>extractedEntities.join\<close> throws on a value that is not
  an array, which the outer \<^verbatim>\<open>catch\<close> turns into the empty output.
\<close>

definition knowledgeGraphSearch ::
  "DatabaseQueryTool \<Rightarrow> string \<Rightarrow> string \<Rightarrow> call list \<times> kg_output" where
  "knowledgeGraphSearch T query uid =
     (let extraction = extractEntitiesFromQuery T query
      in case snd extraction of
           JArray extractedEntities \<Rightarrow>
             if length extractedEntities = 0 then (fst extraction, empty_kg_output)
             else searchEntities T uid extractedEntities (fst extraction, empty_kg_output)
         | _ \<Rightarrow> (fst extraction, empty_kg_output))"

subsection \<open>Vector search\<close>

definition vector_result :: "json \<Rightarrow> vector_doc \<Rightarrow> SearchResult" where
  "vector_result q doc =
     \<lparr>source = vector,
      result_content = or_default (doc_content doc) [],
      metadata = VectorMeta q (doc_document_id doc) (distance doc),
      score = Some (case certainty doc of None \<Rightarrow> 0 | Some c \<Rightarrow> c)\<rparr>"

definition vector_query :: "string \<Rightarrow> json \<Rightarrow> weaviate_query" where
  "vector_query uid q = \<lparr>tenant = uid, concept = q, where_document_id = None, limit = 5\<rparr>"

fun vectorSearch ::
  "DatabaseQueryTool \<Rightarrow> json list \<Rightarrow> string \<Rightarrow> call list \<times> SearchResult list" where
  "vectorSearch T [] uid = ([], [])"
| "vectorSearch T (q # queries) uid =
     (let found = (case weaviateClient T (vector_query uid q) of
                     Inl ex \<Rightarrow> []
                   | Inr None \<Rightarrow> []
                   | Inr (Some docs) \<Rightarrow> map (vector_result q) docs);
          later = vectorSearch T queries uid
      in (WeaviateCall (vector_query uid q) # fst later, found @ snd later))"

definition entity_vector_result :: "EntityWithDocument \<Rightarrow> vector_doc \<Rightarrow> SearchResult" where
  "entity_vector_result entityDoc doc =
     \<lparr>source = vector,
      result_content = or_default (doc_content doc) [],
      metadata = EntityVectorMeta (entity entityDoc) (doc_document_id doc) (distance doc),
      score = Some (case certainty doc of None \<Rightarrow> 0 | Some c \<Rightarrow> c)\<rparr>"

definition entity_vector_query :: "string \<Rightarrow> EntityWithDocument \<Rightarrow> weaviate_query" where
  "entity_vector_query uid entityDoc =
     \<lparr>tenant = uid, concept = JString (entity entityDoc),
      where_document_id = Some (documentId entityDoc), limit = 3\<rparr>"

fun searchEntitiesInVector ::
  "DatabaseQueryTool \<Rightarrow> EntityWithDocument list \<Rightarrow> string \<Rightarrow> call list \<times> SearchResult list" where
  "searchEntitiesInVector T [] uid = ([], [])"
| "searchEntitiesInVector T (entityDoc # rest) uid =
     (let found = (case weaviateClient T (entity_vector_query uid entityDoc) of
                     Inl ex \<Rightarrow> []
                   | Inr None \<Rightarrow> []
                   | Inr (Some docs) \<Rightarrow> map (entity_vector_result entityDoc) docs);
          later = searchEntitiesInVector T rest uid
      in (WeaviateCall (entity_vector_query uid entityDoc) # fst later, found @ snd later))"

subsection \<open>The tool's execute method\<close>

record db_sources =
  keyword_count :: nat
  knowledgeGraph_count :: nat
  vector_count :: nat

record db_data =
  db_results :: "SearchResult list"
  queryVariations :: "json list"
  totalResults :: nat
  sources :: db_sources

definition failed_response :: "string \<Rightarrow> db_data ToolResponse" where
  "failed_response msg = \<lparr>resp_success = False, resp_data = None, resp_error = Some msg\<rparr>"

text \<open>
  \<^verbatim>\<open>DatabaseQueryTool.execute\<close>. The whole body stands in a \<^verbatim>\<open>try\<close> whose handler
  returns the failed response. The three primary searches are awaited together; they share
  no state, and their calls are listed adapter by adapter.
\<close>

definition execute ::
  "DatabaseQueryTool \<Rightarrow> string \<Rightarrow> ToolConfig \<Rightarrow> call list \<times> db_data ToolResponse" where
  "execute T query config =
     (let uid = or_default (clerkUserId config) []
      in if uid = []
         then ([], failed_response ''clerk_user_id is required for database queries'')
         else
           let rephrased = rephraseQuery T query
           in case spread (snd rephrased) of
                Inl ex \<Rightarrow> (fst rephrased, failed_response (errorMessage ex))
              | Inr alternates \<Rightarrow>
                  (let allQueries = JString query # alternates;
                       keywordResults = keywordSearch T query uid;
                       knowledgeGraphResults = knowledgeGraphSearch T query uid;
                       vectorResults = vectorSearch T allQueries uid;
                       entityVectorResults =
                         searchEntitiesInVector T
                           (entitiesWithDocuments (snd knowledgeGraphResults)) uid;
                       allResults =
                         snd keywordResults @ results (snd knowledgeGraphResults)
                         @ snd vectorResults @ snd entityVectorResults
                   in (fst rephrased @ fst keywordResults @ fst knowledgeGraphResults
                       @ fst vectorResults @ fst entityVectorResults,
                       \<lparr>resp_success = True,
                        resp_data =
                          Some \<lparr>db_results = allResults,
                                queryVariations = allQueries,
                                totalResults = length allResults,
                                sources =
                                  \<lparr>keyword_count = length (snd keywordResults),
                                   knowledgeGraph_count =
                                     length (results (snd knowledgeGraphResults)),
                                   vector_count =
                                     length (snd vectorResults)
                                     + length (snd entityVectorResults)\<rparr>\<rparr>,
                        resp_error = None\<rparr>)))"

text \<open>The tool as the registry hands it to the executor.\<close>

definition database_query_tool :: "DatabaseQueryTool \<Rightarrow> db_data registered_tool" where
  "database_query_tool T query config = Inr (snd (execute T query config))"

section \<open>Sample collaborators for the concrete instances\<close>

text \<open>
  A registry holding one tool, \<^verbatim>\<open>database_query\<close>, which throws on the query
  \<^verbatim>\<open>boom\<close> and succeeds on every other one.
\<close>

definition sample_executor :: "unit Executor" where
  "sample_executor =
     \<lparr>getTool =
        (\<lambda>n. if n = ''database_query''
              then Some (\<lambda>q c. if q = ''boom'' then Inl (JsError ''ECONNREFUSED'')
                                else Inr \<lparr>resp_success = True, resp_data = Some (),
                                          resp_error = None\<rparr>)
              else None),
      startTime = 100,
      endTime = 112\<rparr>"

definition two_tool_plan :: ToolPlan where
  "two_tool_plan =
     \<lparr>tools =
        [\<lparr>name = ''database_query'', params = Some (Some ''boom''), priority = 1,
          reason = ''Search user private data and uploaded documents''\<rparr>,
         \<lparr>name = ''web_search'', params = Some (Some ''boom''), priority = 2,
          reason = ''Search the web''\<rparr>],
      strategy = sequential\<rparr>"

definition answered_plan :: ToolPlan where
  "answered_plan =
     \<lparr>tools =
        [\<lparr>name = ''database_query'', params = Some (Some ''who is Ada?''), priority = 1,
          reason = ''Search user private data and uploaded documents''\<rparr>,
         \<lparr>name = ''web_search'', params = Some (Some ''who is Ada?''), priority = 2,
          reason = ''Search the web''\<rparr>],
      strategy = sequential\<rparr>"

definition open_usage :: "string \<Rightarrow> UsageCheck" where
  "open_usage uid =
     \<lparr>canProceed = True, message = None, availableToday = 5, availableMonth = 50,
      heroPoints = 0\<rparr>"

definition failing_finder :: "unit ContextFinder" where
  "failing_finder =
     \<lparr>checkUsageLimit = open_usage, executor = sample_executor, refiner = failing_refiner\<rparr>"

text \<open>
  \<^verbatim>\<open>JSON.parse\<close> on the texts the sample completion services below produce (and on
  the two fallback texts of the code); the samples never parse another text.
\<close>

definition sample_parse :: "string \<Rightarrow> exn + json" where
  \<open>sample_parse s =
     (if s = ''["a","b","c"]''
      then Inr (JArray [JString ''a'', JString ''b'', JString ''c''])
      else if s = ''["a","b"]'' then Inr (JArray [JString ''a'', JString ''b''])
      else if s = ''{"entities": ["Ada"]}''
      then Inr (JObject [(''entities'', JArray [JString ''Ada''])])
      else if s = ''[]'' then Inr (JArray [])
      else if s = ''{"entities": []}'' then Inr (JObject [(''entities'', JArray [])])
      else Inl (JsError ''Unexpected token''))\<close>

text \<open>
  A tool over stores that answer every call with one row or one hit; the completion
  service is left open.
\<close>

definition sample_tool :: "chat_service \<Rightarrow> DatabaseQueryTool" where
  "sample_tool chat =
     \<lparr>openai = chat,
      json_parse = sample_parse,
      keyword_rpc =
        (\<lambda>q u n. Inr \<lparr>rpc_data =
                         Some [\<lparr>kw_data_id = ''doc1'', context_text = Some ''Ada wrote Note G'',
                                match_position = 3, total_matches = 1\<rparr>],
                       rpc_error = None\<rparr>),
      entities_rpc =
        (\<lambda>n u. Inr \<lparr>rpc_data =
                       Some [\<lparr>entity_name = ''Ada Lovelace'', entity_type = ''person'',
                              entity_description = None, data_id = ''doc1''\<rparr>],
                     rpc_error = None\<rparr>),
      relationships_rpc =
        (\<lambda>n u d. Inr \<lparr>rpc_data =
                         Some [\<lparr>subject = ''Ada Lovelace'', predicate = ''wrote'',
                                object = ''Note G'', rel_data_id = ''doc1''\<rparr>],
                       rpc_error = None\<rparr>),
      related_rpc =
        (\<lambda>n u d. Inr \<lparr>rpc_data =
                         Some [\<lparr>related_entity_name = ''Charles Babbage'',
                                related_entity_type = ''person'',
                                relationship_type = ''colleague'',
                                related_data_id = ''doc1''\<rparr>],
                       rpc_error = None\<rparr>),
      weaviateClient =
        (\<lambda>q. Inr (Some [\<lparr>doc_content = Some ''Note G describes an algorithm'',
                          doc_document_id = ''doc1'', certainty = Some 1,
                          distance = Some 0\<rparr>])),
      OPENAI_MODEL_REPHRASE = ''rephrase-model'',
      EXTRACT_ENTITIES_MODEL = ''extract-model''\<rparr>"

text \<open>
  Three completion services: one that answers the rephrasing with two phrasings and the
  extraction with one entity, one that answers every request with three phrasings, and
  one that rejects every request.
\<close>

definition chat_two :: chat_service where
  \<open>chat_two req =
     (if response_format req = Some ''json_object''
      then Inr (Some ''{"entities": ["Ada"]}'')
      else Inr (Some ''["a","b"]''))\<close>

definition chat_three :: chat_service where
  \<open>chat_three req = Inr (Some ''["a","b","c"]'')\<close>

definition chat_down :: chat_service where
  "chat_down req = Inl (JsError ''503 upstream unavailable'')"

definition sample_config :: ToolConfig where
  "sample_config =
     \<lparr>clerkUserId = Some ''user_1'', config_name = ''database_query'', config_priority = 1,
      config_reason = ''Search user private data and uploaded documents'',
      depth = ''medium'', focus = []\<rparr>"

text \<open>
  The output the specification promises for the query expander: a list of at most two
  strings.
\<close>

fun is_json_string :: "json \<Rightarrow> bool" where
  "is_json_string (JString s) = True"
| "is_json_string v = False"

fun at_most_two_strings :: "json \<Rightarrow> bool" where
  "at_most_two_strings (JArray xs) = (length xs \<le> 2 \<and> list_all is_json_string xs)"
| "at_most_two_strings v = False"

section \<open>The confidence scorer\<close>

lemma calculateConfidence_counts:
  "calculateConfidence rs = spec_confidence (length (filter success rs)) (length rs)"
  by (simp add: calculateConfidence_def spec_confidence_def Let_def)

lemma filter_success_le: "length (filter success rs) \<le> length rs"
  by (rule length_filter_le)

lemma spec_confidence_nonneg: "0 \<le> spec_confidence s t"
  by (simp add: spec_confidence_def)

lemma spec_confidence_le_95: "s \<le> t \<Longrightarrow> spec_confidence s t \<le> 95"
proof (cases "s \<ge> 3")
  case True
  then show ?thesis by (simp add: spec_confidence_def)
next
  case False
  assume st: "s \<le> t"
  from False consider "s = 0" | "s = 1" | "s = 2" by linarith
  then show ?thesis
  proof cases
    case 1
    then show ?thesis by (simp add: spec_confidence_def)
  next
    case 2
    then show ?thesis by (simp add: spec_confidence_def min_def)
  next
    case 3
    then show ?thesis by (simp add: spec_confidence_def min_def)
  qed
qed

lemma spec_confidence_mono:
  assumes "s \<le> s'"
  shows "spec_confidence s t \<le> spec_confidence s' t"
proof (cases "t = 0")
  case True
  then show ?thesis by (simp add: spec_confidence_def)
next
  case False
  have r: "real s / real t * 100 \<le> real s' / real t * 100"
    using assms False by (simp add: divide_right_mono)
  from assms consider "s = 0" | "s = 1" | "s = 2" | "s \<ge> 3" by linarith
  then show ?thesis
  proof cases
    case 1
    then show ?thesis
      using spec_confidence_nonneg[of s' t] by (simp add: spec_confidence_def)
  next
    case 2
    then show ?thesis using r assms False by (auto simp: spec_confidence_def min_def)
  next
    case 3
    then show ?thesis using r assms False by (auto simp: spec_confidence_def min_def)
  next
    case 4
    then show ?thesis using r assms False by (auto simp: spec_confidence_def min_def)
  qed
qed

text \<open>
  Claim C1. \<open>calculateConfidence\<close> computes the piecewise value of the specification from
  the number of successful outcomes and the number of outcomes: 0 for no outcome, else the
  success rate in percent, capped at 95 for three or more successes, at 85 for two and at
  70 for one. One success of one gives 70, two of two give 85, three of three give 95 and
  two of four give 50.
\<close>

theorem calculateConfidence_piecewise:
  "calculateConfidence rs = spec_confidence (length (filter success rs)) (length rs)
   \<and> calculateConfidence [ok_result] = 70
   \<and> calculateConfidence [ok_result, ok_result] = 85
   \<and> calculateConfidence [ok_result, ok_result, ok_result] = 95
   \<and> calculateConfidence [ok_result, failed_result, ok_result, failed_result] = 50"
  by (simp add: calculateConfidence_counts spec_confidence_def ok_result_def failed_result_def)

text \<open>
  Claim C2. For every list of outcomes the confidence lies between 0 and 95, so it is never
  100; and of two lists of the same length, the one with at least as many successful
  outcomes has at least the confidence of the other.
\<close>

theorem confidence_bounded_monotone:
  "0 \<le> calculateConfidence rs \<and> calculateConfidence rs \<le> 95
   \<and> calculateConfidence rs \<noteq> 100
   \<and> (length rs = length rs' \<and> length (filter success rs) \<le> length (filter success rs')
        \<longrightarrow> calculateConfidence rs \<le> calculateConfidence rs')"
proof -
  have b: "calculateConfidence rs \<le> 95"
    unfolding calculateConfidence_counts
    by (rule spec_confidence_le_95) (rule filter_success_le)
  have n: "0 \<le> calculateConfidence rs"
    unfolding calculateConfidence_counts by (rule spec_confidence_nonneg)
  have m: "calculateConfidence rs \<le> calculateConfidence rs'"
    if "length rs = length rs'" "length (filter success rs) \<le> length (filter success rs')"
    using that
      spec_confidence_mono[of "length (filter success rs)" "length (filter success rs')"
        "length rs'"]
    by (simp add: calculateConfidence_counts)
  from b n m show ?thesis by auto
qed

theorem confidence_bounded_monotone_witness:
  "length [failed_result, ok_result] = length [ok_result, ok_result]
   \<and> length (filter success [failed_result, ok_result])
       \<le> length (filter success [ok_result, ok_result])
   \<and> calculateConfidence [failed_result, ok_result] = 50
   \<and> calculateConfidence [ok_result, ok_result] = 85
   \<and> calculateConfidence [failed_result, ok_result] \<le> calculateConfidence [ok_result, ok_result]"
  using confidence_bounded_monotone[of "[failed_result, ok_result]" "[ok_result, ok_result]"]
  by (simp add: calculateConfidence_counts spec_confidence_def ok_result_def failed_result_def)

section \<open>The answer synthesizer\<close>

text \<open>
  Claim C3. When no outcome is successful (every outcome failed, or there is none),
  \<open>refineResults\<close> returns the fixed not-found message with confidence 0 and issues no
  call to the completion service.
\<close>

theorem no_success_short_circuit:
  assumes "\<forall>r \<in> set rs. \<not> success r"
  shows "refineResults R query rs
           = ([], Inr \<lparr>content = not_found_message, confidence = 0\<rparr>)"
proof -
  from assms have "filter success rs = []" by (simp add: filter_empty_conv)
  then show ?thesis by (simp add: refineResults_def)
qed

theorem no_success_short_circuit_witness:
  "refineResults answering_refiner ''who is Ada?'' [failed_result, failed_result]
     = ([], Inr \<lparr>content = not_found_message, confidence = 0\<rparr>)
   \<and> refineResults answering_refiner ''who is Ada?'' []
     = ([], Inr \<lparr>content = not_found_message, confidence = 0\<rparr>)"
  using no_success_short_circuit[of "[failed_result, failed_result]" answering_refiner
          "''who is Ada?''"]
        no_success_short_circuit[of "[]" answering_refiner "''who is Ada?''"]
  by (simp add: failed_result_def)

text \<open>
  Claim C5, as the code has it. A rejection of the completion call during synthesis is not
  recovered inside \<open>refineResults\<close>: with at least one successful outcome, the rejection
  is its outcome. Here the service rejects and no \<open>RefinedResponse\<close> is returned.
\<close>

theorem synthesis_failure_counterexample:
  "snd (refineResults failing_refiner ''who is Ada?'' [ok_result])
     = Inl (JsError ''429 rate limit exceeded'')"
  by (simp add: refineResults_def failing_refiner_def ok_result_def)

lemma userMessage_fixed:
  "userMessage e = busy_message \<or> userMessage e = generic_message
   \<or> userMessage e = connection_message"
  by (simp add: userMessage_def Let_def)

lemma refineResults_rejects:
  assumes "\<exists>r \<in> set rs. success r"
    and "refiner_openai R (refine_request R query (filter success rs)) = Inl e"
  shows "refineResults R query rs
           = ([ChatCall (refine_request R query (filter success rs))], Inl e)"
proof -
  from assms(1) have "filter success rs \<noteq> []" by (simp add: filter_empty_conv)
  with assms(2) show ?thesis by (simp add: refineResults_def Let_def)
qed

text \<open>
  Claim C5, amended. For every refiner, query and list of outcomes: when at least one
  outcome is successful and the completion call rejects, \<open>refineResults\<close> issues that one
  call and propagates the rejection instead of returning a \<open>RefinedResponse\<close>. In the
  handler of \<open>context_finder\<close> the rejection is caught and the reply is one of its three
  fixed messages.
\<close>

theorem synthesis_failure_propagates:
  "((\<exists>r \<in> set rs. success r)
      \<and> refiner_openai R (refine_request R query (filter success rs)) = Inl e
     \<longrightarrow> refineResults R query rs
           = ([ChatCall (refine_request R query (filter success rs))], Inl e))
   \<and> (context = Some (Some uid) \<and> uid \<noteq> []
      \<and> canProceed (checkUsageLimit F uid)
      \<and> snd (executeTools (executor F) (toolPlan query) (Some uid)) = Inr trs
      \<and> (\<exists>r \<in> set trs. success r)
      \<and> refiner_openai (refiner F) (refine_request (refiner F) query (filter success trs))
          = Inl e'
     \<longrightarrow> context_finder F query context = userMessage e'
         \<and> userMessage e' \<in> {busy_message, generic_message, connection_message})"
proof -
  have handler: "context_finder F query context = userMessage e'"
    if h: "context = Some (Some uid)" "uid \<noteq> []" "canProceed (checkUsageLimit F uid)"
      "snd (executeTools (executor F) (toolPlan query) (Some uid)) = Inr trs"
      "\<exists>r \<in> set trs. success r"
      "refiner_openai (refiner F) (refine_request (refiner F) query (filter success trs)) = Inl e'"
  proof -
    from h(1,2) have u: "or_default (case context of None \<Rightarrow> None | Some c \<Rightarrow> c) [] = uid"
      by (simp add: or_default_def)
    show ?thesis
      unfolding context_finder_def u Let_def
      using h(2,3,4) refineResults_rejects[OF h(5,6)] by simp
  qed
  from refineResults_rejects[of rs R query e] handler userMessage_fixed[of e']
  show ?thesis by auto
qed

theorem synthesis_failure_propagates_witness:
  "(\<exists>r \<in> set [ok_result, failed_result, ok_result]. success r)
   \<and> refiner_openai failing_refiner
       (refine_request failing_refiner ''who is Ada?''
          (filter success [ok_result, failed_result, ok_result]))
       = Inl (JsError ''429 rate limit exceeded'')
   \<and> refineResults failing_refiner ''who is Ada?'' [ok_result, failed_result, ok_result]
       = ([ChatCall (refine_request failing_refiner ''who is Ada?'' [ok_result, ok_result])],
          Inl (JsError ''429 rate limit exceeded''))
   \<and> canProceed (checkUsageLimit failing_finder ''user_1'')
   \<and> snd (executeTools (executor failing_finder) (toolPlan ''who is Ada?'') (Some ''user_1''))
       = Inr [ok_result]
   \<and> context_finder failing_finder ''who is Ada?'' (Some (Some ''user_1'')) = busy_message"
proof -
  have g1: "\<exists>r \<in> set [ok_result, failed_result, ok_result]. success r"
    by (simp add: ok_result_def)
  have f: "filter success [ok_result, failed_result, ok_result] = [ok_result, ok_result]"
    by (simp add: ok_result_def failed_result_def)
  have g2: "refiner_openai failing_refiner
       (refine_request failing_refiner ''who is Ada?''
          (filter success [ok_result, failed_result, ok_result]))
       = Inl (JsError ''429 rate limit exceeded'')"
    by (simp add: failing_refiner_def)
  have h3: "canProceed (checkUsageLimit failing_finder ''user_1'')"
    by (simp add: failing_finder_def open_usage_def)
  have h4: "snd (executeTools (executor failing_finder) (toolPlan ''who is Ada?'') (Some ''user_1''))
       = Inr [ok_result]"
    by (simp add: failing_finder_def executeTools_def toolPlan_def sample_executor_def
          ok_result_def or_default_def tool_config_def)
  have h5: "\<exists>r \<in> set [ok_result]. success r" by (simp add: ok_result_def)
  have h6: "refiner_openai (refiner failing_finder)
              (refine_request (refiner failing_finder) ''who is Ada?'' (filter success [ok_result]))
            = Inl (JsError ''429 rate limit exceeded'')"
    by (simp add: failing_finder_def failing_refiner_def)
  have m: "userMessage (JsError ''429 rate limit exceeded'') = busy_message"
    by (simp add: userMessage_def includes_str_def)
  from synthesis_failure_propagates[of "[ok_result, failed_result, ok_result]" failing_refiner
         "''who is Ada?''" "JsError ''429 rate limit exceeded''"
         "Some (Some ''user_1'')" "''user_1''" failing_finder "[ok_result]"
         "JsError ''429 rate limit exceeded''"]
       g1 g2 h3 h4 h5 h6 m
  show ?thesis unfolding f by simp
qed

section \<open>The executor and the top-level pipeline\<close>

text \<open>
  Claim C9. For a plan with at least one tool, \<open>executeTools\<close> returns exactly one
  result, named after the first tool; the outcome is that of the plan holding the first
  tool alone, under any strategy; at most one tool execution happens and it is the first
  tool's. When the first tool is registered and the plan gives it parameters, that tool is
  executed exactly once, on the plan's query and the configuration built from the plan
  entry: its response becomes the single result, and an exception it throws becomes the
  single failed result. When it is not registered, or has no parameters, nothing is
  executed and the single result is a failure.
\<close>

theorem executeTools_single_result:
  assumes "tools plan = t # ts"
  shows "(\<exists>r. snd (executeTools X plan uid) = Inr [r] \<and> tool r = name t)
     \<and> executeTools X plan uid = executeTools X \<lparr>tools = [t], strategy = s\<rparr> uid
     \<and> length (fst (executeTools X plan uid)) \<le> 1
     \<and> (\<forall>c \<in> set (fst (executeTools X plan uid)). fst c = name t)
     \<and> (\<forall>impl q e. getTool X (name t) = Some impl \<and> params t = Some q
            \<and> impl (or_default q []) (tool_config t uid) = Inl e
          \<longrightarrow> executeTools X plan uid
                = ([(name t, or_default q [])],
                   Inr [\<lparr>tool = name t, success = False, data = None,
                         error = Some (errorMessage e),
                         executionTime = endTime X - startTime X\<rparr>]))
     \<and> (\<forall>impl q result. getTool X (name t) = Some impl \<and> params t = Some q
            \<and> impl (or_default q []) (tool_config t uid) = Inr result
          \<longrightarrow> executeTools X plan uid
                = ([(name t, or_default q [])],
                   Inr [\<lparr>tool = name t, success = resp_success result,
                         data = resp_data result, error = resp_error result,
                         executionTime = endTime X - startTime X\<rparr>]))
     \<and> (getTool X (name t) = None
          \<longrightarrow> executeTools X plan uid
                = ([], Inr [\<lparr>tool = name t, success = False, data = None,
                             error = Some (''Tool not found: '' @ name t),
                             executionTime = endTime X - startTime X\<rparr>]))
     \<and> (\<forall>impl. getTool X (name t) = Some impl \<and> params t = None
          \<longrightarrow> fst (executeTools X plan uid) = []
              \<and> (\<exists>r. snd (executeTools X plan uid) = Inr [r] \<and> \<not> success r))"
  using assms
  by (auto simp: executeTools_def failed_tool_result_def Let_def
           split: option.splits sum.splits)

theorem executeTools_single_result_witness:
  "tools two_tool_plan = hd (tools two_tool_plan) # tl (tools two_tool_plan)
   \<and> executeTools sample_executor two_tool_plan (Some ''user_1'')
       = ([(''database_query'', ''boom'')],
          Inr [\<lparr>tool = ''database_query'', success = False, data = None,
                error = Some ''ECONNREFUSED'', executionTime = 12\<rparr>])
   \<and> tools answered_plan = hd (tools answered_plan) # tl (tools answered_plan)
   \<and> executeTools sample_executor answered_plan (Some ''user_1'')
       = ([(''database_query'', ''who is Ada?'')],
          Inr [\<lparr>tool = ''database_query'', success = True, data = Some (),
                error = None, executionTime = 12\<rparr>])"
  using executeTools_single_result[of two_tool_plan "hd (tools two_tool_plan)"
          "tl (tools two_tool_plan)" sample_executor "Some ''user_1''" sequential]
        executeTools_single_result[of answered_plan "hd (tools answered_plan)"
          "tl (tools answered_plan)" sample_executor "Some ''user_1''" sequential]
  by (simp add: two_tool_plan_def answered_plan_def sample_executor_def executeTools_def
        failed_tool_result_def or_default_def tool_config_def)

text \<open>
  Claim C10. On the fixed plan of the handler the executor returns exactly one outcome,
  whose confidence is 70 when it succeeded and 0 when it failed; so every
  \<open>RefinedResponse\<close> that refinement returns for it carries confidence 70 or 0.
\<close>

theorem top_level_confidence:
  "\<exists>r. snd (executeTools X (toolPlan query) uid) = Inr [r]
     \<and> calculateConfidence [r] = (if success r then 70 else 0)
     \<and> (\<forall>ra. snd (refineResults R query [r]) = Inr ra
            \<longrightarrow> confidence ra = (if success r then 70 else 0))"
  by (auto simp: executeTools_def toolPlan_def failed_tool_result_def Let_def
        refineResults_def calculateConfidence_def
        split: option.splits sum.splits)

theorem top_level_confidence_witness:
  "snd (executeTools sample_executor (toolPlan ''who is Ada?'') (Some ''user_1''))
     = Inr [ok_result]
   \<and> snd (refineResults answering_refiner ''who is Ada?'' [ok_result])
     = Inr \<lparr>content = ''Ada Lovelace wrote the first program.'', confidence = 70\<rparr>
   \<and> (\<exists>r. snd (executeTools sample_executor (toolPlan ''boom'') (Some ''user_1'')) = Inr [r]
          \<and> snd (refineResults answering_refiner ''boom'' [r])
            = Inr \<lparr>content = not_found_message, confidence = 0\<rparr>)"
  using top_level_confidence[of sample_executor "''who is Ada?''" "Some ''user_1''"
          answering_refiner]
  by (simp add: executeTools_def toolPlan_def sample_executor_def ok_result_def
        failed_tool_result_def or_default_def tool_config_def refineResults_def
        answering_refiner_def calculateConfidence_def)

section \<open>The query expander\<close>

text \<open>
  Claim C6, as the code has it. The expander returns the parsed completion unchecked: a
  completion holding three phrasings gives a list of three.
\<close>

theorem rephraseQuery_unchecked_counterexample:
  "\<not> at_most_two_strings (snd (rephraseQuery (sample_tool chat_three) ''who is Ada?''))"
  by (simp add: rephraseQuery_def sample_tool_def chat_three_def sample_parse_def
        or_default_def)

text \<open>
  Claim C6, amended. \<open>rephraseQuery\<close> issues one completion call and never throws: when
  the call rejects or the completion is not valid JSON it returns the empty list, and
  otherwise it returns the parsed value as it is.
\<close>

theorem rephraseQuery_best_effort:
  \<open>fst (rephraseQuery T query) = [ChatCall (rephrase_request T query)]
   \<and> (\<forall>e. openai T (rephrase_request T query) = Inl e
          \<longrightarrow> snd (rephraseQuery T query) = JArray [])
   \<and> (\<forall>c e. openai T (rephrase_request T query) = Inr c
            \<and> json_parse T (or_default c ''[]'') = Inl e
          \<longrightarrow> snd (rephraseQuery T query) = JArray [])
   \<and> (\<forall>c v. openai T (rephrase_request T query) = Inr c
            \<and> json_parse T (or_default c ''[]'') = Inr v
          \<longrightarrow> snd (rephraseQuery T query) = v)
   \<and> at_most_two_strings (JArray [])\<close>
  by (auto simp: rephraseQuery_def Let_def split: sum.splits)

theorem rephraseQuery_best_effort_witness:
  \<open>openai (sample_tool chat_down) (rephrase_request (sample_tool chat_down) ''who is Ada?'')
     = Inl (JsError ''503 upstream unavailable'')
   \<and> snd (rephraseQuery (sample_tool chat_down) ''who is Ada?'') = JArray []
   \<and> openai (sample_tool chat_two) (rephrase_request (sample_tool chat_two) ''who is Ada?'')
     = Inr (Some ''["a","b"]'')
   \<and> json_parse (sample_tool chat_two) (or_default (Some ''["a","b"]'') ''[]'')
     = Inr (JArray [JString ''a'', JString ''b''])
   \<and> snd (rephraseQuery (sample_tool chat_two) ''who is Ada?'')
     = JArray [JString ''a'', JString ''b'']\<close>
  using rephraseQuery_best_effort[of "sample_tool chat_down" "''who is Ada?''"]
        rephraseQuery_best_effort[of "sample_tool chat_two" "''who is Ada?''"]
  by (simp add: sample_tool_def chat_down_def chat_two_def rephrase_request_def
        sample_parse_def or_default_def)

section \<open>The search coordinator and its adapters\<close>

subsection \<open>Source tags and call logs of the adapters\<close>

lemma extract_log: "fst (extractEntitiesFromQuery T query) = [ChatCall (extract_request T query)]"
  by (simp add: extractEntitiesFromQuery_def Let_def split: sum.splits)

lemma push_rows_sources:
  assumes "\<forall>r \<in> set (results out). source r = knowledge_graph"
    and "\<And>x. source (f x) = knowledge_graph"
  shows "\<forall>r \<in> set (results (push_rows f reply out)). source r = knowledge_graph"
  using assms by (auto simp: push_rows_def split: option.splits)

lemma processEntity_sources:
  assumes "\<forall>r \<in> set (results (snd st)). source r = knowledge_graph"
  shows "\<forall>r \<in> set (results (snd (snd (processEntity T uid e st)))). source r = knowledge_graph"
proof -
  let ?out1 = "(snd st)\<lparr>results := results (snd st) @ [entity_result e],
                          entities := entities (snd st) @ [entity_name e],
                          entitiesWithDocuments :=
                            entitiesWithDocuments (snd st)
                            @ [\<lparr>entity = entity_name e, documentId = data_id e\<rparr>]\<rparr>"
  have o1: "\<forall>r \<in> set (results ?out1). source r = knowledge_graph"
    using assms by (auto simp: entity_result_def)
  have o2: "\<forall>r \<in> set (results (push_rows relationship_result rel ?out1)). source r = knowledge_graph" for rel
    by (rule push_rows_sources[OF o1]) (simp add: relationship_result_def)
  have o3: "\<forall>r \<in> set (results (push_rows related_result rl (push_rows relationship_result rel ?out1))).
              source r = knowledge_graph" for rel rl
    by (rule push_rows_sources[OF o2]) (simp add: related_result_def)
  show ?thesis
    unfolding processEntity_def Let_def
    using o1 o2 o3 by (simp split: sum.splits)
qed

lemma processEntities_sources:
  "\<forall>r \<in> set (results (snd st)). source r = knowledge_graph
   \<Longrightarrow> \<forall>r \<in> set (results (snd (snd (processEntities T uid es st)))). source r = knowledge_graph"
proof (induction es arbitrary: st)
  case Nil
  then show ?case by simp
next
  case (Cons e es)
  obtain ex st' where p: "processEntity T uid e st = (ex, st')" by (cases "processEntity T uid e st")
  from processEntity_sources[OF Cons.prems, of T uid e] p
  have inv: "\<forall>r \<in> set (results (snd st')). source r = knowledge_graph" by simp
  show ?case
  proof (cases ex)
    case None
    with p Cons.IH[OF inv] show ?thesis by simp
  next
    case (Some a)
    with p inv show ?thesis by simp
  qed
qed

lemma searchEntity_sources:
  assumes "\<forall>r \<in> set (results (snd st)). source r = knowledge_graph"
  shows "\<forall>r \<in> set (results (snd (searchEntity T uid n st))). source r = knowledge_graph"
proof -
  have "\<forall>r \<in> set (results (snd (snd (processEntities T uid rows
            (fst st @ [RpcCall (search_knowledge_entities n uid)], snd st))))).
          source r = knowledge_graph" for rows
    by (rule processEntities_sources) (simp add: assms)
  then show ?thesis
    using assms by (simp add: searchEntity_def Let_def split: sum.splits)
qed

lemma searchEntities_sources:
  "\<forall>r \<in> set (results (snd st)). source r = knowledge_graph
   \<Longrightarrow> \<forall>r \<in> set (results (snd (searchEntities T uid ns st))). source r = knowledge_graph"
proof (induction ns arbitrary: st)
  case Nil
  then show ?case by simp
next
  case (Cons n ns)
  from Cons.IH[OF searchEntity_sources[OF Cons.prems]] show ?case by simp
qed

lemma knowledgeGraphSearch_sources:
  "\<forall>r \<in> set (results (snd (knowledgeGraphSearch T query uid))). source r = knowledge_graph"
proof -
  have e: "\<forall>r \<in> set (results (snd (l, empty_kg_output))). source r = knowledge_graph" for l :: "call list"
    by (simp add: empty_kg_output_def)
  show ?thesis
    unfolding knowledgeGraphSearch_def Let_def
    using searchEntities_sources[OF e] e
    by (simp split: json.splits)
qed

lemma keywordSearch_sources:
  "\<forall>r \<in> set (snd (keywordSearch T query uid)). source r = keyword"
  by (auto simp: keywordSearch_def Let_def keyword_result_def split: sum.splits option.splits)

lemma vectorSearch_sources:
  "\<forall>r \<in> set (snd (vectorSearch T qs uid)). source r = vector"
  by (induction qs) (auto simp: Let_def vector_result_def split: sum.splits option.splits)

lemma searchEntitiesInVector_sources:
  "\<forall>r \<in> set (snd (searchEntitiesInVector T eds uid)). source r = vector"
  by (induction eds) (auto simp: Let_def entity_vector_result_def split: sum.splits option.splits)

lemma map_const_replicate:
  "\<forall>x \<in> set xs. f x = c \<Longrightarrow> map f xs = replicate (length xs) c"
  by (induction xs) auto


lemma processEntity_log: "prefix (fst st) (fst (snd (processEntity T uid e st)))"
  by (simp add: processEntity_def Let_def split: sum.splits)

lemma processEntities_log: "prefix (fst st) (fst (snd (processEntities T uid es st)))"
proof (induction es arbitrary: st)
  case Nil
  then show ?case by simp
next
  case (Cons e es)
  obtain ex st' where p: "processEntity T uid e st = (ex, st')"
    by (cases "processEntity T uid e st")
  from processEntity_log[of st T uid e] p have a: "prefix (fst st) (fst st')" by simp
  show ?case
  proof (cases ex)
    case None
    from Cons.IH[of st'] a have "prefix (fst st) (fst (snd (processEntities T uid es st')))"
      by (rule prefix_order.trans[rotated])
    with p None show ?thesis by simp
  next
    case (Some x)
    with p a show ?thesis by simp
  qed
qed

lemma searchEntity_log: "prefix (fst st) (fst (searchEntity T uid n st))"
proof -
  have "prefix (fst st) (fst (snd (processEntities T uid rows
          (fst st @ [RpcCall (search_knowledge_entities n uid)], snd st))))" for rows
    using processEntities_log[of "(fst st @ [RpcCall (search_knowledge_entities n uid)], snd st)"
            T uid rows]
    by (auto elim: prefix_order.trans[rotated])
  then show ?thesis
    by (simp add: searchEntity_def Let_def split: sum.splits)
qed

lemma searchEntities_log: "prefix (fst st) (fst (searchEntities T uid ns st))"
proof (induction ns arbitrary: st)
  case Nil
  then show ?case by simp
next
  case (Cons n ns)
  from searchEntity_log[of st T uid n] Cons.IH[of "searchEntity T uid n st"]
  show ?case by (auto elim: prefix_order.trans)
qed

lemma knowledgeGraphSearch_log:
  "prefix [ChatCall (extract_request T query)] (fst (knowledgeGraphSearch T query uid))"
  using searchEntities_log[of "(fst (extractEntitiesFromQuery T query), empty_kg_output)" T uid]
  by (simp add: knowledgeGraphSearch_def Let_def extract_log split: json.splits)

lemma keywordSearch_log:
  "fst (keywordSearch T query uid) = [RpcCall (keyword_search_with_context query uid 50)]"
  by (simp add: keywordSearch_def Let_def split: sum.splits)

lemma execute_success:
  assumes "resp_success (snd (execute T query config))"
  obtains uid alternates where "clerkUserId config = Some uid" and "uid \<noteq> []"
    and "spread (snd (rephraseQuery T query)) = Inr alternates"
proof -
  from assms have u: "or_default (clerkUserId config) [] \<noteq> []"
    by (auto simp: execute_def Let_def failed_response_def)
  then obtain uid where c: "clerkUserId config = Some uid" "uid \<noteq> []"
    by (auto simp: or_default_def split: option.splits if_splits)
  from assms u obtain alternates where "spread (snd (rephraseQuery T query)) = Inr alternates"
    by (auto simp: execute_def Let_def failed_response_def split: sum.splits)
  with c that show thesis by blast
qed

lemma execute_ok:
  assumes "clerkUserId config = Some uid" and "uid \<noteq> []"
    and "spread (snd (rephraseQuery T query)) = Inr alternates"
  shows "resp_success (snd (execute T query config))"
    and "resp_error (snd (execute T query config)) = None"
    and "\<exists>d. resp_data (snd (execute T query config)) = Some d
           \<and> queryVariations d = JString query # alternates
           \<and> totalResults d = length (db_results d)
           \<and> db_results d
               = snd (keywordSearch T query uid)
                 @ results (snd (knowledgeGraphSearch T query uid))
                 @ snd (vectorSearch T (JString query # alternates) uid)
                 @ snd (searchEntitiesInVector T
                          (entitiesWithDocuments (snd (knowledgeGraphSearch T query uid))) uid)"
    and "fst (execute T query config)
           = fst (rephraseQuery T query)
             @ fst (keywordSearch T query uid)
             @ fst (knowledgeGraphSearch T query uid)
             @ fst (vectorSearch T (JString query # alternates) uid)
             @ fst (searchEntitiesInVector T
                      (entitiesWithDocuments (snd (knowledgeGraphSearch T query uid))) uid)"
proof -
  from assms(1,2) have u: "or_default (clerkUserId config) [] = uid"
    by (simp add: or_default_def)
  show "resp_success (snd (execute T query config))"
    unfolding execute_def u Let_def using assms(2,3) by simp
  show "resp_error (snd (execute T query config)) = None"
    unfolding execute_def u Let_def using assms(2,3) by simp
  show "\<exists>d. resp_data (snd (execute T query config)) = Some d
           \<and> queryVariations d = JString query # alternates
           \<and> totalResults d = length (db_results d)
           \<and> db_results d
               = snd (keywordSearch T query uid)
                 @ results (snd (knowledgeGraphSearch T query uid))
                 @ snd (vectorSearch T (JString query # alternates) uid)
                 @ snd (searchEntitiesInVector T
                          (entitiesWithDocuments (snd (knowledgeGraphSearch T query uid))) uid)"
    unfolding execute_def u Let_def using assms(2,3) by simp
  show "fst (execute T query config)
           = fst (rephraseQuery T query)
             @ fst (keywordSearch T query uid)
             @ fst (knowledgeGraphSearch T query uid)
             @ fst (vectorSearch T (JString query # alternates) uid)
             @ fst (searchEntitiesInVector T
                      (entitiesWithDocuments (snd (knowledgeGraphSearch T query uid))) uid)"
    unfolding execute_def u Let_def using assms(2,3) by simp
qed


text \<open>
  Claim C4. Whenever \<open>execute\<close> produces an evidence set (it succeeds), that set is the
  keyword results, then the knowledge-graph results, then the vector results of the query
  variations, then the entity-vector results, appended in this order with nothing added,
  dropped or moved: its source tags are a block of \<open>keyword\<close>, a block of
  \<open>knowledge_graph\<close> and a block of \<open>vector\<close> of the adapters' lengths.
\<close>

theorem merged_evidence_order:
  assumes "resp_success (snd (execute T query config))"
  shows "\<exists>uid d. clerkUserId config = Some uid
     \<and> resp_data (snd (execute T query config)) = Some d
     \<and> db_results d
         = snd (keywordSearch T query uid)
           @ results (snd (knowledgeGraphSearch T query uid))
           @ snd (vectorSearch T (queryVariations d) uid)
           @ snd (searchEntitiesInVector T
                    (entitiesWithDocuments (snd (knowledgeGraphSearch T query uid))) uid)
     \<and> map source (db_results d)
         = replicate (length (snd (keywordSearch T query uid))) keyword
           @ replicate (length (results (snd (knowledgeGraphSearch T query uid)))) knowledge_graph
           @ replicate
               (length (snd (vectorSearch T (queryVariations d) uid))
                + length (snd (searchEntitiesInVector T
                     (entitiesWithDocuments (snd (knowledgeGraphSearch T query uid))) uid)))
               vector
     \<and> totalResults d = length (db_results d)"
proof -
  from assms obtain uid alternates where c: "clerkUserId config = Some uid" "uid \<noteq> []"
    and sp: "spread (snd (rephraseQuery T query)) = Inr alternates"
    by (rule execute_success)
  from execute_ok(3)[OF c sp] obtain d where
    d: "resp_data (snd (execute T query config)) = Some d"
      "queryVariations d = JString query # alternates"
      "totalResults d = length (db_results d)"
      "db_results d
         = snd (keywordSearch T query uid)
           @ results (snd (knowledgeGraphSearch T query uid))
           @ snd (vectorSearch T (JString query # alternates) uid)
           @ snd (searchEntitiesInVector T
                    (entitiesWithDocuments (snd (knowledgeGraphSearch T query uid))) uid)"
    by blast
  have tags: "map source (db_results d)
      = replicate (length (snd (keywordSearch T query uid))) keyword
        @ replicate (length (results (snd (knowledgeGraphSearch T query uid)))) knowledge_graph
        @ replicate
            (length (snd (vectorSearch T (JString query # alternates) uid))
             + length (snd (searchEntitiesInVector T
                  (entitiesWithDocuments (snd (knowledgeGraphSearch T query uid))) uid)))
            vector"
    unfolding d(4)
    using map_const_replicate[OF keywordSearch_sources, of T query uid]
      map_const_replicate[OF knowledgeGraphSearch_sources, of T query uid]
      map_const_replicate[OF vectorSearch_sources, of T "JString query # alternates" uid]
      map_const_replicate[OF searchEntitiesInVector_sources, of T
        "entitiesWithDocuments (snd (knowledgeGraphSearch T query uid))" uid]
    by (simp add: replicate_add)
  from c(1) d tags show ?thesis by auto
qed

theorem merged_evidence_order_witness:
  "resp_success (snd (execute (sample_tool chat_two) ''who is Ada?'' sample_config))
   \<and> map source
         (db_results (the (resp_data
            (snd (execute (sample_tool chat_two) ''who is Ada?'' sample_config)))))
       = [keyword, knowledge_graph, knowledge_graph, knowledge_graph,
          vector, vector, vector, vector]"
proof -
  have e: "extractEntitiesFromQuery (sample_tool chat_two) ''who is Ada?''
             = ([ChatCall (extract_request (sample_tool chat_two) ''who is Ada?'')],
                JArray [JString ''Ada''])"
    by (simp add: extractEntitiesFromQuery_def extract_request_def sample_tool_def
          chat_two_def sample_parse_def or_default_def)
  have g: "map source (results (snd (knowledgeGraphSearch (sample_tool chat_two)
              ''who is Ada?'' ''user_1'')))
           = [knowledge_graph, knowledge_graph, knowledge_graph]"
    unfolding knowledgeGraphSearch_def e
    by (simp add: searchEntity_def processEntity_def push_rows_def sample_tool_def Let_def
          empty_kg_output_def entity_result_def relationship_result_def related_result_def)
  have w: "entitiesWithDocuments (snd (knowledgeGraphSearch (sample_tool chat_two)
              ''who is Ada?'' ''user_1''))
           = [\<lparr>entity = ''Ada Lovelace'', documentId = ''doc1''\<rparr>]"
    unfolding knowledgeGraphSearch_def e
    by (simp add: searchEntity_def processEntity_def push_rows_def sample_tool_def Let_def
          empty_kg_output_def)
  have r: "rephraseQuery (sample_tool chat_two) ''who is Ada?''
             = ([ChatCall (rephrase_request (sample_tool chat_two) ''who is Ada?'')],
                JArray [JString ''a'', JString ''b''])"
    by (simp add: rephraseQuery_def rephrase_request_def sample_tool_def chat_two_def
          sample_parse_def or_default_def)
  have k: "map source (snd (keywordSearch (sample_tool chat_two) ''who is Ada?'' ''user_1''))
             = [keyword]"
    by (simp add: keywordSearch_def sample_tool_def keyword_result_def)
  have v: "map source (snd (vectorSearch (sample_tool chat_two)
              [JString ''who is Ada?'', JString ''a'', JString ''b''] ''user_1''))
             = [vector, vector, vector]"
    by (simp add: sample_tool_def vector_result_def)
  have ev: "map source (snd (searchEntitiesInVector (sample_tool chat_two)
              [\<lparr>entity = ''Ada Lovelace'', documentId = ''doc1''\<rparr>] ''user_1''))
             = [vector]"
    by (simp add: sample_tool_def entity_vector_result_def)
  have c: "clerkUserId sample_config = Some ''user_1''" by (simp add: sample_config_def)
  have sp: "spread (snd (rephraseQuery (sample_tool chat_two) ''who is Ada?''))
              = Inr [JString ''a'', JString ''b'']"
    by (simp add: r)
  have ok: "resp_success (snd (execute (sample_tool chat_two) ''who is Ada?'' sample_config))"
    by (rule execute_ok(1)[OF c _ sp]) simp
  from execute_ok(3)[OF c _ sp] obtain d where
    d: "resp_data (snd (execute (sample_tool chat_two) ''who is Ada?'' sample_config)) = Some d"
      "db_results d
         = snd (keywordSearch (sample_tool chat_two) ''who is Ada?'' ''user_1'')
           @ results (snd (knowledgeGraphSearch (sample_tool chat_two) ''who is Ada?'' ''user_1''))
           @ snd (vectorSearch (sample_tool chat_two)
                    [JString ''who is Ada?'', JString ''a'', JString ''b''] ''user_1'')
           @ snd (searchEntitiesInVector (sample_tool chat_two)
                    (entitiesWithDocuments
                       (snd (knowledgeGraphSearch (sample_tool chat_two) ''who is Ada?'' ''user_1'')))
                    ''user_1'')"
    by auto
  have m: "map source
         (db_results (the (resp_data
            (snd (execute (sample_tool chat_two) ''who is Ada?'' sample_config)))))
       = [keyword, knowledge_graph, knowledge_graph, knowledge_graph,
          vector, vector, vector, vector]"
    unfolding d(1) option.sel d(2) w map_append k g v ev by simp
  from merged_evidence_order[OF ok] ok m show ?thesis by simp
qed



text \<open>
  Claim C7. When the rephrasing fails (the completion call rejects, or its text does not
  parse) for a request with a user id, \<open>execute\<close> still succeeds: the query variations are
  the original query alone, the vector search issues exactly one query, for the original
  query, the keyword call is issued, and the knowledge-graph search runs, starting with
  its entity extraction.
\<close>

theorem expansion_failure_tolerated:
  assumes \<open>(\<exists>e. openai T (rephrase_request T query) = Inl e)
           \<or> (\<exists>c e. openai T (rephrase_request T query) = Inr c
                    \<and> json_parse T (or_default c ''[]'') = Inl e)\<close>
    and "clerkUserId config = Some uid" and "uid \<noteq> []"
  shows "snd (rephraseQuery T query) = JArray []
     \<and> resp_success (snd (execute T query config))
     \<and> (\<exists>d. resp_data (snd (execute T query config)) = Some d
            \<and> queryVariations d = [JString query]
            \<and> db_results d
                = snd (keywordSearch T query uid)
                  @ results (snd (knowledgeGraphSearch T query uid))
                  @ snd (vectorSearch T [JString query] uid)
                  @ snd (searchEntitiesInVector T
                           (entitiesWithDocuments (snd (knowledgeGraphSearch T query uid))) uid))
     \<and> fst (vectorSearch T [JString query] uid)
         = [WeaviateCall \<lparr>tenant = uid, concept = JString query,
                          where_document_id = None, limit = 5\<rparr>]
     \<and> fst (execute T query config)
         = [ChatCall (rephrase_request T query),
            RpcCall (keyword_search_with_context query uid 50)]
           @ fst (knowledgeGraphSearch T query uid)
           @ [WeaviateCall (vector_query uid (JString query))]
           @ fst (searchEntitiesInVector T
                    (entitiesWithDocuments (snd (knowledgeGraphSearch T query uid))) uid)
     \<and> prefix [ChatCall (extract_request T query)] (fst (knowledgeGraphSearch T query uid))"
proof -
  from assms(1) have r: "rephraseQuery T query = ([ChatCall (rephrase_request T query)], JArray [])"
    by (auto simp: rephraseQuery_def Let_def)
  then have sp: "spread (snd (rephraseQuery T query)) = Inr []" by simp
  have v: "fst (vectorSearch T [JString query] uid)
             = [WeaviateCall (vector_query uid (JString query))]"
    by (simp add: Let_def)
  from execute_ok(3)[OF assms(2,3) sp]
  have d: "\<exists>d. resp_data (snd (execute T query config)) = Some d
            \<and> queryVariations d = [JString query]
            \<and> db_results d
                = snd (keywordSearch T query uid)
                  @ results (snd (knowledgeGraphSearch T query uid))
                  @ snd (vectorSearch T [JString query] uid)
                  @ snd (searchEntitiesInVector T
                           (entitiesWithDocuments (snd (knowledgeGraphSearch T query uid))) uid)"
    by blast
  have l: "fst (execute T query config)
         = [ChatCall (rephrase_request T query),
            RpcCall (keyword_search_with_context query uid 50)]
           @ fst (knowledgeGraphSearch T query uid)
           @ [WeaviateCall (vector_query uid (JString query))]
           @ fst (searchEntitiesInVector T
                    (entitiesWithDocuments (snd (knowledgeGraphSearch T query uid))) uid)"
    unfolding execute_ok(4)[OF assms(2,3) sp] r keywordSearch_log v by simp
  have q: "vector_query uid (JString query)
             = \<lparr>tenant = uid, concept = JString query, where_document_id = None, limit = 5\<rparr>"
    by (simp add: vector_query_def)
  from r execute_ok(1)[OF assms(2,3) sp] d v l knowledgeGraphSearch_log[of T query uid]
  show ?thesis unfolding q by simp
qed

theorem expansion_failure_tolerated_witness:
  "openai (sample_tool chat_down) (rephrase_request (sample_tool chat_down) ''who is Ada?'')
     = Inl (JsError ''503 upstream unavailable'')
   \<and> clerkUserId sample_config = Some ''user_1''
   \<and> resp_success (snd (execute (sample_tool chat_down) ''who is Ada?'' sample_config))
   \<and> fst (execute (sample_tool chat_down) ''who is Ada?'' sample_config)
       = [ChatCall (rephrase_request (sample_tool chat_down) ''who is Ada?''),
          RpcCall (keyword_search_with_context ''who is Ada?'' ''user_1'' 50),
          ChatCall (extract_request (sample_tool chat_down) ''who is Ada?''),
          WeaviateCall \<lparr>tenant = ''user_1'', concept = JString ''who is Ada?'',
                        where_document_id = None, limit = 5\<rparr>]"
proof -
  have h1: "openai (sample_tool chat_down)
              (rephrase_request (sample_tool chat_down) ''who is Ada?'')
            = Inl (JsError ''503 upstream unavailable'')"
    by (simp add: sample_tool_def chat_down_def)
  have h2: "clerkUserId sample_config = Some ''user_1''" by (simp add: sample_config_def)
  have g: "knowledgeGraphSearch (sample_tool chat_down) ''who is Ada?'' ''user_1''
             = ([ChatCall (extract_request (sample_tool chat_down) ''who is Ada?'')],
                empty_kg_output)"
    by (simp add: knowledgeGraphSearch_def extractEntitiesFromQuery_def sample_tool_def
          chat_down_def)
  from h1 have d: "(\<exists>e. openai (sample_tool chat_down)
              (rephrase_request (sample_tool chat_down) ''who is Ada?'') = Inl e)
      \<or> (\<exists>c e. openai (sample_tool chat_down)
              (rephrase_request (sample_tool chat_down) ''who is Ada?'') = Inr c
            \<and> json_parse (sample_tool chat_down) (or_default c ''[]'') = Inl e)"
    by simp
  from expansion_failure_tolerated[OF d h2] h1 h2 g
  show ?thesis by (simp add: vector_query_def empty_kg_output_def)
qed


text \<open>
  Claim C8. The entity extraction issues one completion call and yields the empty list on
  every failure; and whenever it yields the empty list, the knowledge-graph search returns
  empty results, entities and pairs, having issued no call but that completion call, and
  the entity-driven vector expansion then issues none either.
\<close>

theorem no_entities_no_graph_calls:
  \<open>fst (extractEntitiesFromQuery T query) = [ChatCall (extract_request T query)]
   \<and> ((\<exists>e. openai T (extract_request T query) = Inl e)
        \<or> (\<exists>c e. openai T (extract_request T query) = Inr c
                 \<and> json_parse T (or_default c ''{"entities": []}'') = Inl e)
        \<or> (\<exists>c p e. openai T (extract_request T query) = Inr c
                 \<and> json_parse T (or_default c ''{"entities": []}'') = Inr p
                 \<and> entities_of p = Inl e)
       \<longrightarrow> snd (extractEntitiesFromQuery T query) = JArray [])
   \<and> (snd (extractEntitiesFromQuery T query) = JArray []
       \<longrightarrow> knowledgeGraphSearch T query uid
             = ([ChatCall (extract_request T query)],
                \<lparr>results = [], entities = [], entitiesWithDocuments = []\<rparr>)
           \<and> searchEntitiesInVector T
                (entitiesWithDocuments (snd (knowledgeGraphSearch T query uid))) uid
             = ([], []))\<close>
proof -
  have a: "fst (extractEntitiesFromQuery T query) = [ChatCall (extract_request T query)]"
    by (rule extract_log)
  have b: "knowledgeGraphSearch T query uid
             = ([ChatCall (extract_request T query)],
                \<lparr>results = [], entities = [], entitiesWithDocuments = []\<rparr>)"
    if "snd (extractEntitiesFromQuery T query) = JArray []"
    using that a by (simp add: knowledgeGraphSearch_def Let_def empty_kg_output_def)
  show ?thesis
    using a b by (auto simp: extractEntitiesFromQuery_def Let_def)
qed

theorem no_entities_no_graph_calls_witness:
  "openai (sample_tool chat_down) (extract_request (sample_tool chat_down) ''who is Ada?'')
     = Inl (JsError ''503 upstream unavailable'')
   \<and> snd (extractEntitiesFromQuery (sample_tool chat_down) ''who is Ada?'') = JArray []
   \<and> knowledgeGraphSearch (sample_tool chat_down) ''who is Ada?'' ''user_1''
       = ([ChatCall (extract_request (sample_tool chat_down) ''who is Ada?'')],
          \<lparr>results = [], entities = [], entitiesWithDocuments = []\<rparr>)"
  using no_entities_no_graph_calls[of "sample_tool chat_down" "''who is Ada?''" "''user_1''"]
  by (simp add: sample_tool_def chat_down_def)

end
